theory Spec2Isabelle
  imports Complex_Main
begin

section \<open>The command-line entry point of OpenLane (\<open>openlane/__main__.py\<close>)\<close>

text \<open>
  The module holds one function, \<open>cli\<close>, wrapped by \<open>click\<close> option declarations. It
  loads a configuration, picks a flow class, optionally loads an initial state and the
  tag of the latest run, and starts the flow; failures end the process with an exit
  status. The engine (\<open>ConfigBuilder\<close>, \<open>Flow\<close>, \<open>SequentialFlow\<close>, \<open>State\<close>), the file
  system and the output functions \<open>err\<close>, \<open>warn\<close>, \<open>log\<close> are declared elsewhere: the
  engine and the file system are parameters of the model (the record \<open>env\<close>), and each
  call to them, like each line printed, is an entry of a trace, so that what happened
  before the process ended can be read off.
\<close>

subsection \<open>Data\<close>

text \<open>
  \<open>config_in.meta.flow\<close>: the name of a registered flow (a \<open>str\<close>) or a list of step
  identifiers. Line 140 tells the two apart with \<open>isinstance(flow_description, str)\<close>.
\<close>

datatype flow_description = Name string | Steps "string list"

record meta =
  flow :: flow_description

record 'p config =
  meta :: meta
  payload :: 'p

text \<open>
  The exceptions the module names, with the attributes it reads: \<open>InvalidConfig\<close> has
  \<open>config\<close>, \<open>errors\<close> and \<open>warnings\<close>; of the others only \<open>str(e)\<close> is used. The
  constructor is the class whose handler takes the exception: handlers are tried in the
  order of the source, \<open>InvalidConfig\<close> before \<open>ValueError\<close> and \<open>FlowException\<close> before
  \<open>FlowError\<close>. \<open>OSError\<close> is what \<open>open\<close> and \<open>os.path.getmtime\<close> raise; \<open>Exception\<close> is any
  other exception. None of the last two has a handler in this module.
\<close>

datatype exn =
    InvalidConfig string "string list" "string list"
  | ValueError string
  | FlowException string
  | FlowError string
  | OSError string
  | Exception string

text \<open>The parameters of \<open>cli\<close> (lines 95 to 107), as \<open>click\<close> passes them.\<close>

record args =
  flow_name :: "string option"
  pdk_root :: "string option"
  pdk :: string
  scl :: "string option"
  config_file :: string
  run_tag :: "string option"
  last_run :: bool
  frm :: "string option"
  to :: "string option"
  initial_state_json :: "string option"
  config_override_strings :: "string list"

text \<open>
  \<open>TargetFlow(config_in, design_dir)\<close>, line 151: the flow object is its class and the two
  constructor arguments.
\<close>

datatype ('p, 'cls) flow_obj = Flow_obj 'cls "'p config" string

text \<open>The keyword arguments of \<open>flow.start\<close> (lines 174 to 179), with the receiver.\<close>

record ('p, 'cls, 'st) start_call =
  receiver :: "('p, 'cls) flow_obj"
  tag :: "string option"
  start_frm :: "string option"
  start_to :: "string option"
  with_initial_state :: "'st option"

text \<open>
  The collaborators. A call that may raise returns \<open>exn + result\<close>. \<open>factory_get\<close> is
  \<open>Flow.factory.get\<close>, whose result line 143 tests for truth: \<open>None\<close> is no class.
  \<open>glob\<close> is \<open>glob.glob\<close>: the paths matching a pattern, in the order the file system
  gives them. \<open>getmtime\<close> is \<open>os.path.getmtime\<close>, a float; only its order and its
  comparison with \<open>0\<close> matter here, so it is a real number. \<open>str_casefold\<close> is Python's
  \<open>str.casefold\<close>, the Unicode case folding that the option parser applies to \<open>--flow\<close>;
  nothing is assumed of it.
\<close>

record ('p, 'cls, 'st) env =
  ConfigBuilder_load ::
    "string \<Rightarrow> string option \<Rightarrow> string \<Rightarrow> string option \<Rightarrow> string list
       \<Rightarrow> exn + ('p config \<times> string)"
  factory_list :: "string list"
  factory_get :: "string \<Rightarrow> 'cls option"
  SequentialFlow_make :: "string list \<Rightarrow> 'cls"
  open_read :: "string \<Rightarrow> exn + string"
  State_loads :: "string \<Rightarrow> exn + 'st"
  glob :: "string \<Rightarrow> string list"
  getmtime :: "string \<Rightarrow> exn + real"
  start :: "('p, 'cls, 'st) start_call \<Rightarrow> exn + unit"
  str_casefold :: "string \<Rightarrow> string"

text \<open>What the process does that can be seen from outside, in order.\<close>

datatype ('p, 'cls, 'st) event =
    Err string
  | Warn string
  | Log string
  | Invalid_choice string "string list"
  | Call_load string "string option" string "string option" "string list"
  | Call_get string
  | Call_make "string list"
  | Call_open string
  | Call_loads string
  | Call_glob string
  | Call_getmtime string
  | Call_start "('p, 'cls, 'st) start_call"

text \<open>
  How a computation stops early: \<open>exit(n)\<close> raises \<open>SystemExit\<close>, which no handler of the
  module catches, and an exception without a handler leaves \<open>cli\<close>.
\<close>

datatype halt = Exit nat | Uncaught exn

type_synonym ('e, 'a) comp = "'e list \<times> (halt + 'a)"

definition ret :: "'a \<Rightarrow> ('e, 'a) comp" where
  "ret x = ([], Inr x)"

definition emit :: "'e \<Rightarrow> ('e, unit) comp" where
  "emit ev = ([ev], Inr ())"

definition stop :: "halt \<Rightarrow> ('e, 'a) comp" where
  "stop h = ([], Inl h)"

definition call :: "'e \<Rightarrow> exn + 'a \<Rightarrow> ('e, 'a) comp" where
  "call ev r = ([ev], case r of Inl e \<Rightarrow> Inl (Uncaught e) | Inr v \<Rightarrow> Inr v)"

definition bindc :: "('e, 'a) comp \<Rightarrow> ('a \<Rightarrow> ('e, 'b) comp) \<Rightarrow> ('e, 'b) comp" where
  "bindc m f =
     (case m of
        (tr, Inl h) \<Rightarrow> (tr, Inl h)
      | (tr, Inr x) \<Rightarrow> (case f x of (tr', r) \<Rightarrow> (tr @ tr', r)))"

text \<open>
  The exit status of the process: \<open>0\<close> when \<open>cli\<close> returns, the argument of \<open>exit\<close>, and \<open>1\<close>
  when the interpreter ends on an exception.
\<close>

fun exit_code :: "halt + unit \<Rightarrow> nat" where
  "exit_code (Inr _) = 0"
| "exit_code (Inl (Exit n)) = n"
| "exit_code (Inl (Uncaught _)) = 1"

subsection \<open>Library functions on paths and strings\<close>

definition os_path_join :: "string \<Rightarrow> string \<Rightarrow> string" where
  \<comment> \<open>\<open>posixpath.join\<close> of two components.\<close>
  "os_path_join a b =
     (if b \<noteq> [] \<and> hd b = CHR ''/'' then b
      else if a = [] \<or> last a = CHR ''/'' then a @ b
      else a @ ''/'' @ b)"

definition basename :: "string \<Rightarrow> string" where
  \<comment> \<open>\<open>posixpath.basename\<close>: what follows the last \<open>/\<close>.\<close>
  "basename p = rev (takeWhile (\<lambda>c. c \<noteq> CHR ''/'') (rev p))"

definition runs_pattern :: "string \<Rightarrow> string" where
  \<comment> \<open>\<open>os.path.join(design_dir, "runs", "*")\<close>, line 157.\<close>
  "runs_pattern design_dir = os_path_join (os_path_join design_dir ''runs'') ''*''"

definition quoted :: "string \<Rightarrow> string" where
  \<comment> \<open>\<open>'{...}'\<close> inside an f-string: the text between two apostrophes.\<close>
  "quoted s = [CHR 0x27] @ s @ [CHR 0x27]"

subsection \<open>The stages of \<open>cli\<close>\<close>

definition check_exclusive :: "args \<Rightarrow> (('p, 'cls, 'st) event, unit) comp" where
  \<comment> \<open>Lines 108 to 111.\<close>
  "check_exclusive a =
     (if run_tag a \<noteq> None \<and> last_run a
      then bindc (emit (Err ''--run-tag and --last-run are mutually exclusive.''))
             (\<lambda>_. stop (Exit 1))
      else ret ())"

definition load_config ::
  "('p, 'cls, 'st) env \<Rightarrow> args \<Rightarrow> (('p, 'cls, 'st) event, 'p config \<times> string) comp" where
  \<comment> \<open>Lines 113 to 134.\<close>
  "load_config E a =
     (let ev = Call_load (config_file a) (pdk_root a) (pdk a) (scl a)
                 (config_override_strings a)
      in case ConfigBuilder_load E (config_file a) (pdk_root a) (pdk a) (scl a)
                (config_override_strings a) of
           Inr r \<Rightarrow> ([ev], Inr r)
         | Inl (InvalidConfig cfg errors warnings) \<Rightarrow>
             ([ev, Log (''[green]Errors have occurred while loading the '' @ cfg @ '':'')]
                @ map Err errors
                @ (if length warnings > 0
                   then Log ''The following warnings have also been generated:''
                          # map Warn warnings
                   else [])
                @ [Log ''OpenLane will now quit. Please check your configuration.''],
              Inl (Exit 1))
         | Inl (ValueError m) \<Rightarrow>
             ([ev, Err m, Log ''OpenLane will now quit.''], Inl (Exit 1))
         | Inl e \<Rightarrow> ([ev], Inl (Uncaught e)))"

definition flow_description_of :: "string option \<Rightarrow> 'p config \<Rightarrow> flow_description" where
  \<comment> \<open>Line 136, \<open>flow_name or config_in.meta.flow\<close>: \<open>None\<close> and the empty string are false.\<close>
  "flow_description_of fn config_in =
     (case fn of
        None \<Rightarrow> flow (meta config_in)
      | Some s \<Rightarrow> if s = [] then flow (meta config_in) else Name s)"

definition unknown_flow :: "string \<Rightarrow> string" where
  "unknown_flow s =
     ''Unknown flow '' @ quoted s @ '' specified in configuration''
       @ [CHR 0x27] @ ''s '' @ quoted ''meta'' @ '' object.''"

definition resolve_flow ::
  "('p, 'cls, 'st) env \<Rightarrow> flow_description \<Rightarrow> (('p, 'cls, 'st) event, 'cls) comp" where
  \<comment> \<open>Lines 138 to 149.\<close>
  "resolve_flow E fd =
     (case fd of
        Steps ids \<Rightarrow> ([Call_make ids], Inr (SequentialFlow_make E ids))
      | Name s \<Rightarrow>
          (case factory_get E s of
             Some FlowClass \<Rightarrow> ([Call_get s], Inr FlowClass)
           | None \<Rightarrow> ([Call_get s, Err (unknown_flow s)], Inl (Exit 1))))"

definition load_state ::
  "('p, 'cls, 'st) env \<Rightarrow> string option \<Rightarrow> (('p, 'cls, 'st) event, 'st option) comp" where
  \<comment> \<open>Lines 152 to 154.\<close>
  "load_state E path =
     (case path of
        None \<Rightarrow> ret None
      | Some p \<Rightarrow>
          bindc (call (Call_open p) (open_read E p)) (\<lambda>text.
          bindc (call (Call_loads text) (State_loads E text)) (\<lambda>st.
          ret (Some st))))"

text \<open>
  The loop of lines 161 to 165, with \<open>latest_time\<close> and \<open>latest_run\<close> as arguments. It ends
  early only when \<open>os.path.getmtime\<close> raises.
\<close>

fun latest ::
  "('p, 'cls, 'st) env \<Rightarrow> string list \<Rightarrow> real \<Rightarrow> string option
     \<Rightarrow> (('p, 'cls, 'st) event, real \<times> string option) comp" where
  "latest E [] latest_time latest_run = ([], Inr (latest_time, latest_run))"
| "latest E (run # runs) latest_time latest_run =
     (case getmtime E run of
        Inl e \<Rightarrow> ([Call_getmtime run], Inl (Uncaught e))
      | Inr time \<Rightarrow>
          (case (if time > latest_time
                 then latest E runs time (Some run)
                 else latest E runs latest_time latest_run) of
             (tr, r) \<Rightarrow> (Call_getmtime run # tr, r)))"

definition resolve_run ::
  "('p, 'cls, 'st) env \<Rightarrow> string \<Rightarrow> args \<Rightarrow> (('p, 'cls, 'st) event, string option) comp" where
  \<comment> \<open>Lines 156 to 171.\<close>
  "resolve_run E design_dir a =
     (if last_run a then
        bindc (emit (Call_glob (runs_pattern design_dir))) (\<lambda>_.
        bindc (latest E (glob E (runs_pattern design_dir)) 0 None) (\<lambda>(latest_time, latest_run).
          case latest_run of
            None \<Rightarrow> bindc (emit (Err ''--last-run specified, but no runs found.''))
                      (\<lambda>_. stop (Exit 1))
          | Some r \<Rightarrow> ret (Some (basename r))))
      else ret (run_tag a))"

definition dispatch ::
  "('p, 'cls, 'st) env \<Rightarrow> ('p, 'cls, 'st) start_call \<Rightarrow> (('p, 'cls, 'st) event, unit) comp" where
  \<comment> \<open>Lines 173 to 187.\<close>
  "dispatch E sc =
     (case start E sc of
        Inr _ \<Rightarrow> ([Call_start sc], Inr ())
      | Inl (FlowException m) \<Rightarrow>
          ([Call_start sc,
            Err (''The flow has encountered an unexpected error: '' @ m),
            Err ''OpenLane will now quit.''], Inl (Exit 1))
      | Inl (FlowError m) \<Rightarrow>
          ([Call_start sc,
            Err (''The following error was encountered while running the flow: '' @ m),
            Err ''OpenLane will now quit.''], Inl (Exit 2))
      | Inl e \<Rightarrow> ([Call_start sc], Inl (Uncaught e)))"

definition cli_setup ::
  "('p, 'cls, 'st) env \<Rightarrow> args \<Rightarrow> (('p, 'cls, 'st) event, ('p, 'cls, 'st) start_call) comp" where
  \<comment> \<open>Lines 108 to 171: everything before \<open>flow.start\<close>, giving the arguments of the call.\<close>
  "cli_setup E a =
     bindc (check_exclusive a) (\<lambda>_.
     bindc (load_config E a) (\<lambda>(config_in, design_dir).
     bindc (resolve_flow E (flow_description_of (flow_name a) config_in)) (\<lambda>TargetFlow.
     bindc (load_state E (initial_state_json a)) (\<lambda>initial_state.
     bindc (resolve_run E design_dir a) (\<lambda>tg.
     ret \<lparr>receiver = Flow_obj TargetFlow config_in design_dir, tag = tg,
          start_frm = frm a, start_to = to a,
          with_initial_state = initial_state\<rparr>)))))"

definition cli :: "('p, 'cls, 'st) env \<Rightarrow> args \<Rightarrow> (('p, 'cls, 'st) event, unit) comp" where
  "cli E a = bindc (cli_setup E a) (dispatch E)"

subsection \<open>The option parser in front of \<open>cli\<close>\<close>

text \<open>
  Lines 42 to 49 give \<open>--flow\<close> the type \<open>click.Choice(Flow.factory.list(),
  case_sensitive=False)\<close>. \<open>click\<close> converts the word on the command line before it calls
  \<open>cli\<close>: it folds the case of the word and of every choice with \<open>str.casefold\<close>, and
  hands over the choice that matches (the later one when two choices fold to the same
  text); when none matches
  it prints a usage error that names the word and the choices and exits with status 2,
  and \<open>cli\<close> is not called. The other options are plain strings and a flag.
\<close>

definition Choice_convert ::
  "(string \<Rightarrow> string) \<Rightarrow> string list \<Rightarrow> string \<Rightarrow> string option" where
  "Choice_convert cf choices v =
     find (\<lambda>c. cf c = cf v) (rev choices)"

definition main :: "('p, 'cls, 'st) env \<Rightarrow> args \<Rightarrow> (('p, 'cls, 'st) event, unit) comp" where
  "main E a =
     (case flow_name a of
        None \<Rightarrow> cli E a
      | Some v \<Rightarrow>
          (case Choice_convert (str_casefold E) (factory_list E) v of
             None \<Rightarrow> ([Invalid_choice v (factory_list E)], Inl (Exit 2))
           | Some c \<Rightarrow> cli E (a\<lparr>flow_name := Some c\<rparr>)))"

subsection \<open>Reading the trace\<close>

fun is_registry_lookup :: "('p, 'cls, 'st) event \<Rightarrow> bool" where
  "is_registry_lookup (Call_get _) = True"
| "is_registry_lookup _ = False"

fun is_state_read :: "('p, 'cls, 'st) event \<Rightarrow> bool" where
  "is_state_read (Call_open _) = True"
| "is_state_read (Call_loads _) = True"
| "is_state_read _ = False"

fun is_run_scan :: "('p, 'cls, 'st) event \<Rightarrow> bool" where
  "is_run_scan (Call_glob _) = True"
| "is_run_scan (Call_getmtime _) = True"
| "is_run_scan _ = False"

subsection \<open>A small design to run the model on\<close>

text \<open>
  A design directory \<open>design\<close> with two runs, a registry of two flows, a configuration
  that names the flow \<open>Classic\<close>, and one state file. Classes and states are written as
  strings.
\<close>

text \<open>
  The words of the example are ASCII, and on ASCII text \<open>str.casefold\<close> lowers the capital
  letters and leaves every other character as it is.
\<close>

definition ascii_lower_char :: "char \<Rightarrow> char" where
  "ascii_lower_char c =
     (if 65 \<le> (of_char c :: nat) \<and> (of_char c :: nat) \<le> 90
      then char_of ((of_char c :: nat) + 32) else c)"

definition ascii_lower :: "string \<Rightarrow> string" where
  "ascii_lower s = map ascii_lower_char s"

definition example_config :: "unit config" where
  "example_config = \<lparr>meta = \<lparr>flow = Name ''Classic''\<rparr>, payload = ()\<rparr>"

definition example_env :: "(unit, string, string) env" where
  "example_env =
     \<lparr>ConfigBuilder_load = (\<lambda>f pr p s ov. Inr (example_config, ''design'')),
      factory_list = [''Classic'', ''OpenInKLayout''],
      factory_get =
        (\<lambda>n. if n = ''Classic'' \<or> n = ''OpenInKLayout'' then Some n else None),
      SequentialFlow_make = (\<lambda>ids. ''SequentialFlow''),
      open_read = (\<lambda>p. if p = ''state_in.json'' then Inr ''{}'' else Inl (OSError p)),
      State_loads = (\<lambda>t. if t = ''{}'' then Inr ''empty state'' else Inl (ValueError t)),
      glob =
        (\<lambda>pat. if pat = ''design/runs/*''
              then [''design/runs/RUN_1'', ''design/runs/RUN_2''] else []),
      getmtime =
        (\<lambda>p. if p = ''design/runs/RUN_1'' then Inr 1700000000
             else if p = ''design/runs/RUN_2'' then Inr 1700000500
             else Inl (OSError p)),
      start = (\<lambda>sc. Inr ()),
      str_casefold = ascii_lower\<rparr>"

definition example_args :: args where
  "example_args =
     \<lparr>flow_name = None, pdk_root = None, pdk = ''sky130A'', scl = None,
      config_file = ''config.json'', run_tag = None, last_run = False, frm = None,
      to = None, initial_state_json = None, config_override_strings = []\<rparr>"

section \<open>Properties\<close>

subsection \<open>Sequencing and the trace of each stage\<close>

lemma bindc_Inl: "bindc (tr, Inl h) f = (tr, Inl h)"
  by (simp add: bindc_def)

lemma bindc_Inr: "bindc (tr, Inr x) f = (tr @ fst (f x), snd (f x))"
  by (simp add: bindc_def split: prod.splits)

lemma bindc_eq_Inr:
  "bindc m f = (tr, Inr y) \<longleftrightarrow>
     (\<exists>t1 x t2. m = (t1, Inr x) \<and> f x = (t2, Inr y) \<and> tr = t1 @ t2)"
  by (cases m; cases "snd m") (auto simp: bindc_def split: prod.splits sum.splits)

lemma set_fst_bindc:
  "set (fst (bindc m f)) =
     set (fst m) \<union> (case snd m of Inl h \<Rightarrow> {} | Inr x \<Rightarrow> set (fst (f x)))"
  by (cases m; cases "snd m") (auto simp: bindc_def split: prod.splits sum.splits)

lemma cli_setup_Inr:
  "cli_setup E a = (tr, Inr sc) \<longleftrightarrow>
     (\<exists>cfg d t1 cls t2 st t3 tg t4.
        \<not> (run_tag a \<noteq> None \<and> last_run a)
        \<and> load_config E a = (t1, Inr (cfg, d))
        \<and> resolve_flow E (flow_description_of (flow_name a) cfg) = (t2, Inr cls)
        \<and> load_state E (initial_state_json a) = (t3, Inr st)
        \<and> resolve_run E d a = (t4, Inr tg)
        \<and> tr = t1 @ t2 @ t3 @ t4
        \<and> sc = \<lparr>receiver = Flow_obj cls cfg d, tag = tg, start_frm = frm a,
                 start_to = to a, with_initial_state = st\<rparr>)"
  by (auto simp: cli_setup_def bindc_eq_Inr check_exclusive_def ret_def emit_def stop_def
        bindc_Inl bindc_Inr split: if_splits)

lemma latest_Cons_fst:
  "fst (latest E (run # runs) lt lr) =
     (case getmtime E run of
        Inl e \<Rightarrow> [Call_getmtime run]
      | Inr time \<Rightarrow>
          Call_getmtime run
            # fst (if time > lt then latest E runs time (Some run) else latest E runs lt lr))"
  by (simp split: sum.splits prod.splits)

lemma latest_events:
  "ev \<in> set (fst (latest E runs lt lr)) \<Longrightarrow> \<exists>r \<in> set runs. ev = Call_getmtime r"
proof (induction runs arbitrary: lt lr)
  case Nil
  then show ?case by simp
next
  case (Cons run runs)
  show ?case
  proof (cases "getmtime E run")
    case (Inl e)
    with Cons.prems show ?thesis by (simp add: latest_Cons_fst del: latest.simps)
  next
    case (Inr time)
    with Cons.prems have
      "ev = Call_getmtime run
       \<or> ev \<in> set (fst (latest E runs time (Some run)))
       \<or> ev \<in> set (fst (latest E runs lt lr))"
      by (auto simp: latest_Cons_fst simp del: latest.simps split: if_splits)
    with Cons.IH show ?thesis by auto
  qed
qed

lemma check_exclusive_events:
  "ev \<in> set (fst (check_exclusive a)) \<Longrightarrow> \<exists>m. ev = Err m"
  by (auto simp: check_exclusive_def bindc_def emit_def stop_def ret_def split: if_splits)

lemma load_config_events:
  "ev \<in> set (fst (load_config E a)) \<Longrightarrow>
     (\<exists>m. ev = Err m \<or> ev = Warn m \<or> ev = Log m)
     \<or> ev = Call_load (config_file a) (pdk_root a) (pdk a) (scl a) (config_override_strings a)"
  by (auto simp: load_config_def Let_def split: sum.splits exn.splits if_splits)

lemma resolve_flow_events:
  "ev \<in> set (fst (resolve_flow E fd)) \<Longrightarrow>
     (\<exists>ids. fd = Steps ids \<and> ev = Call_make ids)
     \<or> (\<exists>s. fd = Name s \<and> (ev = Call_get s \<or> ev = Err (unknown_flow s)))"
  by (auto simp: resolve_flow_def split: flow_description.splits option.splits)

lemma load_state_events:
  "ev \<in> set (fst (load_state E path)) \<Longrightarrow>
     (\<exists>p. path = Some p \<and> (ev = Call_open p \<or> (\<exists>text. open_read E p = Inr text \<and> ev = Call_loads text)))"
  by (auto simp: load_state_def bindc_def call_def ret_def split: option.splits sum.splits prod.splits)

lemma resolve_run_events:
  "ev \<in> set (fst (resolve_run E d a)) \<Longrightarrow>
     last_run a \<and> (ev = Call_glob (runs_pattern d)
       \<or> (\<exists>r \<in> set (glob E (runs_pattern d)). ev = Call_getmtime r)
       \<or> ev = Err ''--last-run specified, but no runs found.'')"
  by (auto simp: resolve_run_def set_fst_bindc emit_def stop_def ret_def
        split: if_splits sum.splits prod.splits option.splits dest: latest_events)

lemma dispatch_events:
  "ev \<in> set (fst (dispatch E sc)) \<Longrightarrow> ev = Call_start sc \<or> (\<exists>m. ev = Err m)"
  by (auto simp: dispatch_def split: sum.splits exn.splits)

lemma cli_setup_events:
  "ev \<in> set (fst (cli_setup E a)) \<Longrightarrow>
     ev \<in> set (fst (check_exclusive a))
     \<or> (\<not> (run_tag a \<noteq> None \<and> last_run a)
        \<and> (ev \<in> set (fst (load_config E a))
           \<or> (\<exists>cfg d. snd (load_config E a) = Inr (cfg, d)
                \<and> (ev \<in> set (fst (resolve_flow E (flow_description_of (flow_name a) cfg)))
                   \<or> (\<exists>cls. snd (resolve_flow E (flow_description_of (flow_name a) cfg)) = Inr cls
                        \<and> (ev \<in> set (fst (load_state E (initial_state_json a)))
                           \<or> (\<exists>st. snd (load_state E (initial_state_json a)) = Inr st
                                \<and> ev \<in> set (fst (resolve_run E d a)))))))))"
  by (auto simp: cli_setup_def set_fst_bindc ret_def check_exclusive_def stop_def emit_def
        bindc_Inl bindc_Inr split: sum.splits prod.splits if_splits)

lemma cli_events:
  "ev \<in> set (fst (cli E a)) \<Longrightarrow>
     ev \<in> set (fst (cli_setup E a))
     \<or> (\<exists>sc. snd (cli_setup E a) = Inr sc \<and> ev \<in> set (fst (dispatch E sc)))"
  by (auto simp: cli_def set_fst_bindc split: sum.splits)

lemma cli_setup_no_start: "Call_start sc \<notin> set (fst (cli_setup E a))"
  by (auto dest!: cli_setup_events check_exclusive_events load_config_events
        resolve_flow_events load_state_events resolve_run_events)

lemma start_in_cli:
  "Call_start sc \<in> set (fst (cli E a)) \<Longrightarrow> snd (cli_setup E a) = Inr sc"
  by (auto dest!: cli_events dispatch_events simp: cli_setup_no_start)

lemma cli_setup_snd_Inr:
  "snd (cli_setup E a) = Inr sc \<Longrightarrow>
     \<exists>cfg d cls st tg.
        \<not> (run_tag a \<noteq> None \<and> last_run a)
        \<and> snd (load_config E a) = Inr (cfg, d)
        \<and> snd (resolve_flow E (flow_description_of (flow_name a) cfg)) = Inr cls
        \<and> snd (load_state E (initial_state_json a)) = Inr st
        \<and> snd (resolve_run E d a) = Inr tg
        \<and> sc = \<lparr>receiver = Flow_obj cls cfg d, tag = tg, start_frm = frm a,
                 start_to = to a, with_initial_state = st\<rparr>"
proof -
  assume "snd (cli_setup E a) = Inr sc"
  then have "cli_setup E a = (fst (cli_setup E a), Inr sc)"
    by (metis prod.collapse)
  then show ?thesis
    unfolding cli_setup_Inr by auto
qed

lemma cli_after_setup:
  "cli_setup E a = (tr, Inr sc) \<Longrightarrow>
     cli E a = (tr @ fst (dispatch E sc), snd (dispatch E sc))"
  by (simp add: cli_def bindc_Inr)

subsection \<open>The scan for the latest run\<close>

text \<open>
  When the loop ends normally, either no entry had a time above the starting
  \<open>latest_time\<close> and the two variables are unchanged, or the entry kept is the first one
  that carries the greatest time, and that time is above the starting value.
\<close>

lemma latest_Cons_Inr:
  "getmtime E run = Inr time \<Longrightarrow>
     latest E (run # runs) lt lr = (tr, Inr res) \<longleftrightarrow>
       (\<exists>tr'. tr = Call_getmtime run # tr'
          \<and> (if time > lt then latest E runs time (Some run) else latest E runs lt lr)
              = (tr', Inr res))"
  by (auto split: prod.splits)

lemma latest_result:
  "latest E runs lt lr = (tr, Inr (t, sel)) \<Longrightarrow>
     (sel = lr \<and> t = lt \<and> (\<forall>x \<in> set runs. \<forall>v. getmtime E x = Inr v \<longrightarrow> v \<le> lt))
     \<or> (\<exists>pre r post. runs = pre @ r # post \<and> sel = Some r \<and> getmtime E r = Inr t \<and> lt < t
          \<and> (\<forall>x \<in> set pre. \<forall>v. getmtime E x = Inr v \<longrightarrow> v < t)
          \<and> (\<forall>x \<in> set post. \<forall>v. getmtime E x = Inr v \<longrightarrow> v \<le> t))"
proof (induction runs arbitrary: lt lr tr)
  case Nil
  then show ?case by simp
next
  case (Cons run runs)
  show ?case
  proof (cases "getmtime E run")
    case (Inl e)
    with Cons.prems show ?thesis by simp
  next
    case (Inr time)
    from Cons.prems obtain tr' where
      rest: "(if time > lt then latest E runs time (Some run) else latest E runs lt lr)
               = (tr', Inr (t, sel))"
      using latest_Cons_Inr [OF Inr, of runs lt lr tr "(t, sel)"] by fast
    show ?thesis
    proof (cases "time > lt")
      case True
      with rest have "latest E runs time (Some run) = (tr', Inr (t, sel))" by simp
      from Cons.IH [OF this] show ?thesis
      proof
        assume h: "sel = Some run \<and> t = time
                   \<and> (\<forall>x \<in> set runs. \<forall>v. getmtime E x = Inr v \<longrightarrow> v \<le> time)"
        show ?thesis
          using h Inr True
          apply -
          apply (rule disjI2)
          apply (rule exI [of _ "[]"])
          apply (rule exI [of _ run])
          apply (rule exI [of _ runs])
          apply simp
          done
      next
        assume "\<exists>pre r post. runs = pre @ r # post \<and> sel = Some r \<and> getmtime E r = Inr t
                  \<and> time < t
                  \<and> (\<forall>x \<in> set pre. \<forall>v. getmtime E x = Inr v \<longrightarrow> v < t)
                  \<and> (\<forall>x \<in> set post. \<forall>v. getmtime E x = Inr v \<longrightarrow> v \<le> t)"
        then obtain pre r post where
          h: "runs = pre @ r # post" "sel = Some r" "getmtime E r = Inr t" "time < t"
             "\<forall>x \<in> set pre. \<forall>v. getmtime E x = Inr v \<longrightarrow> v < t"
             "\<forall>x \<in> set post. \<forall>v. getmtime E x = Inr v \<longrightarrow> v \<le> t"
          by fast
        have 3: "lt < t" using True h(4) by simp
        show ?thesis
          using h 3 Inr
          apply -
          apply (rule disjI2)
          apply (rule exI [of _ "run # pre"])
          apply (rule exI [of _ r])
          apply (rule exI [of _ post])
          apply simp
          done
      qed
    next
      case False
      with rest have "latest E runs lt lr = (tr', Inr (t, sel))" by simp
      from Cons.IH [OF this] show ?thesis
      proof
        assume h: "sel = lr \<and> t = lt
                   \<and> (\<forall>x \<in> set runs. \<forall>v. getmtime E x = Inr v \<longrightarrow> v \<le> lt)"
        show ?thesis
          using h Inr False
          apply -
          apply (rule disjI1)
          apply simp
          done
      next
        assume "\<exists>pre r post. runs = pre @ r # post \<and> sel = Some r \<and> getmtime E r = Inr t
                  \<and> lt < t
                  \<and> (\<forall>x \<in> set pre. \<forall>v. getmtime E x = Inr v \<longrightarrow> v < t)
                  \<and> (\<forall>x \<in> set post. \<forall>v. getmtime E x = Inr v \<longrightarrow> v \<le> t)"
        then obtain pre r post where
          h: "runs = pre @ r # post" "sel = Some r" "getmtime E r = Inr t" "lt < t"
             "\<forall>x \<in> set pre. \<forall>v. getmtime E x = Inr v \<longrightarrow> v < t"
             "\<forall>x \<in> set post. \<forall>v. getmtime E x = Inr v \<longrightarrow> v \<le> t"
          by fast
        have 3: "time < t" using False h(4) by simp
        show ?thesis
          using h 3 Inr
          apply -
          apply (rule disjI2)
          apply (rule exI [of _ "run # pre"])
          apply (rule exI [of _ r])
          apply (rule exI [of _ post])
          apply simp
          done
      qed
    qed
  qed
qed

lemma latest_total:
  "\<forall>x \<in> set runs. \<exists>v. getmtime E x = Inr v \<Longrightarrow>
     \<exists>res. latest E runs lt lr = (map Call_getmtime runs, Inr res)"
proof (induction runs arbitrary: lt lr)
  case Nil
  then show ?case by simp
next
  case (Cons run runs)
  then obtain time where t: "getmtime E run = Inr time" by auto
  from Cons.prems have all: "\<forall>x \<in> set runs. \<exists>v. getmtime E x = Inr v" by simp
  from Cons.IH [OF all] obtain res where
    "(if time > lt then latest E runs time (Some run) else latest E runs lt lr)
       = (map Call_getmtime runs, Inr res)"
    by (cases "time > lt") fastforce+
  then show ?case
    using latest_Cons_Inr [OF t, of runs lt lr "map Call_getmtime (run # runs)" res]
    by simp
qed

lemma basename_no_slash: "CHR ''/'' \<notin> set (basename p)"
  unfolding basename_def set_rev by (metis (mono_tags, lifting) set_takeWhileD)

lemma basename_suffix: "\<exists>pre. p = pre @ basename p"
proof -
  have "rev p = takeWhile (\<lambda>c. c \<noteq> CHR ''/'') (rev p) @ dropWhile (\<lambda>c. c \<noteq> CHR ''/'') (rev p)"
    by simp
  then have "p = rev (dropWhile (\<lambda>c. c \<noteq> CHR ''/'') (rev p)) @ basename p"
    unfolding basename_def by (metis rev_append rev_rev_ident)
  then show ?thesis ..
qed

lemma resolve_run_last:
  "last_run a \<Longrightarrow> resolve_run E d a = (tr, Inr tg) \<Longrightarrow>
     \<exists>tr' t r. latest E (glob E (runs_pattern d)) 0 None = (tr', Inr (t, Some r))
        \<and> tg = Some (basename r)"
  by (auto simp: resolve_run_def bindc_eq_Inr emit_def ret_def stop_def bindc_def
        split: option.splits prod.splits sum.splits)

lemma latest_selected_mem:
  "latest E runs 0 None = (tr, Inr (t, Some r)) \<Longrightarrow> r \<in> set runs \<and> getmtime E r = Inr t \<and> 0 < t"
  using latest_result [of E runs 0 None tr t "Some r"] by auto

lemma cli_trace_after_setup:
  "cli_setup E a = (tr, Inr sc) \<Longrightarrow> set tr \<subseteq> set (fst (cli E a))"
  by (simp add: cli_after_setup)

lemma cli_stops_in_setup:
  "snd (cli_setup E a) = Inl h \<Longrightarrow> snd (cli E a) = Inl h"
  by (cases "cli_setup E a") (simp add: cli_def bindc_def)

lemma setup_stops_in_load_state:
  "\<not> (run_tag a \<noteq> None \<and> last_run a) \<Longrightarrow> snd (load_config E a) = Inr (cfg, d) \<Longrightarrow>
   snd (resolve_flow E (flow_description_of (flow_name a) cfg)) = Inr cls \<Longrightarrow>
   snd (load_state E (initial_state_json a)) = Inl h \<Longrightarrow>
     snd (cli_setup E a) = Inl h"
  by (cases "load_config E a"; cases "resolve_flow E (flow_description_of (flow_name a) cfg)";
      cases "load_state E (initial_state_json a)")
     (auto simp: cli_setup_def check_exclusive_def ret_def bindc_def)

lemma open_event_stage:
  assumes "Call_open p \<in> set (fst (cli E a))"
  shows "initial_state_json a = Some p \<and> \<not> (run_tag a \<noteq> None \<and> last_run a)
         \<and> (\<exists>cfg d cls. snd (load_config E a) = Inr (cfg, d)
               \<and> snd (resolve_flow E (flow_description_of (flow_name a) cfg)) = Inr cls)"
proof -
  from assms have "Call_open p \<in> set (fst (cli_setup E a))"
    by (auto dest!: cli_events dispatch_events)
  from cli_setup_events [OF this] show ?thesis
    by (auto dest!: check_exclusive_events load_config_events resolve_flow_events
          load_state_events resolve_run_events)
qed

lemma load_state_Some_Inr:
  "snd (load_state E (Some p)) = Inr s \<Longrightarrow>
     \<exists>text st. open_read E p = Inr text \<and> State_loads E text = Inr st \<and> s = Some st
        \<and> fst (load_state E (Some p)) = [Call_open p, Call_loads text]"
  by (auto simp: load_state_def bindc_def call_def ret_def split: sum.splits)

lemma load_state_Some_Inl:
  "open_read E p = Inl e \<or> (\<exists>text. open_read E p = Inr text \<and> State_loads E text = Inl e) \<Longrightarrow>
     snd (load_state E (Some p)) = Inl (Uncaught e)"
  by (auto simp: load_state_def bindc_def call_def ret_def split: sum.splits)

lemma load_config_halt:
  "snd (load_config E a) = Inl h \<Longrightarrow> exit_code (Inl h) = 1"
  by (auto simp: load_config_def Let_def split: sum.splits exn.splits)

lemma resolve_flow_halt:
  "snd (resolve_flow E fd) = Inl h \<Longrightarrow> exit_code (Inl h) = 1"
  by (auto simp: resolve_flow_def split: flow_description.splits option.splits)

lemma setup_halts_before_state:
  assumes "snd (load_state E (initial_state_json a)) = Inl h0"
  shows "\<exists>h. snd (cli_setup E a) = Inl h
           \<and> (h = h0 \<or> exit_code (Inl h :: halt + unit) = 1)"
proof (cases "run_tag a \<noteq> None \<and> last_run a")
  case True
  then have "snd (cli_setup E a) = Inl (Exit 1)"
    by (simp add: cli_setup_def check_exclusive_def bindc_def emit_def stop_def)
  then show ?thesis by simp
next
  case x: False
  show ?thesis
  proof (cases "snd (load_config E a)")
    case (Inl h)
    then have "snd (cli_setup E a) = Inl h"
      using x by (cases "load_config E a")
        (auto simp: cli_setup_def check_exclusive_def bindc_def ret_def)
    with load_config_halt [OF Inl] show ?thesis by simp
  next
    case (Inr r)
    obtain cfg d where r: "r = (cfg, d)" by (cases r)
    show ?thesis
    proof (cases "snd (resolve_flow E (flow_description_of (flow_name a) cfg))")
      case (Inl h)
      then have "snd (cli_setup E a) = Inl h"
        using x Inr r
        by (cases "load_config E a";
            cases "resolve_flow E (flow_description_of (flow_name a) cfg)")
           (auto simp: cli_setup_def check_exclusive_def bindc_def ret_def)
      with resolve_flow_halt [OF Inl] show ?thesis by simp
    next
      case (Inr cls)
      from setup_stops_in_load_state [OF x _ Inr assms] \<open>snd (load_config E a) = Inr r\<close> r
      show ?thesis by simp
    qed
  qed
qed

lemma state_failure_exit_1:
  assumes "initial_state_json a = Some p"
    and "open_read E p = Inl e
         \<or> (\<exists>content. open_read E p = Inr content \<and> State_loads E content = Inl e)"
  shows "exit_code (snd (cli E a)) = 1"
proof -
  from load_state_Some_Inl [OF assms(2)] assms(1) have
    "snd (load_state E (initial_state_json a)) = Inl (Uncaught e)" by simp
  from setup_halts_before_state [OF this] obtain h where
    "snd (cli_setup E a) = Inl h" "h = Uncaught e \<or> exit_code (Inl h :: halt + unit) = 1"
    by blast
  with cli_stops_in_setup [of E a h] show ?thesis by auto
qed

lemma load_state_trace_in_cli:
  "snd (cli_setup E a) = Inr sc \<Longrightarrow>
     set (fst (load_state E (initial_state_json a))) \<subseteq> set (fst (cli E a))"
proof -
  assume "snd (cli_setup E a) = Inr sc"
  then have s: "cli_setup E a = (fst (cli_setup E a), Inr sc)"
    by (metis prod.collapse)
  then obtain t1 t2 t3 t4 where
    "fst (cli_setup E a) = t1 @ t2 @ t3 @ t4" "fst (load_state E (initial_state_json a)) = t3"
    unfolding cli_setup_Inr by fastforce
  with cli_trace_after_setup [OF s] show ?thesis by auto
qed

text \<open>
  Run resolution under \<open>--last-run\<close>. When it returns a tag, the tag is the base name of
  the first entry, in the order of \<open>glob.glob\<close>, that carries the greatest time, and that
  time is after the epoch. When every entry has a time at or before the epoch, the scan
  keeps \<open>latest_run = None\<close> and the process exits as if the directory were empty.
\<close>

lemma last_run_selects_first_latest:
  assumes "last_run a" and "resolve_run E d a = (tr, Inr tg)"
  shows "\<exists>pre r post t. glob E (runs_pattern d) = pre @ r # post
           \<and> getmtime E r = Inr t \<and> 0 < t
           \<and> (\<forall>x \<in> set pre. \<forall>v. getmtime E x = Inr v \<longrightarrow> v < t)
           \<and> (\<forall>x \<in> set post. \<forall>v. getmtime E x = Inr v \<longrightarrow> v \<le> t)
           \<and> tg = Some (basename r)"
proof -
  from resolve_run_last [OF assms] obtain tr' t r where
    l: "latest E (glob E (runs_pattern d)) 0 None = (tr', Inr (t, Some r))"
    and b: "tg = Some (basename r)"
    by blast
  from latest_result [OF l] obtain pre r' post where
    "glob E (runs_pattern d) = pre @ r' # post" "Some r = Some r'" "getmtime E r' = Inr t"
    "0 < t" "\<forall>x \<in> set pre. \<forall>v. getmtime E x = Inr v \<longrightarrow> v < t"
    "\<forall>x \<in> set post. \<forall>v. getmtime E x = Inr v \<longrightarrow> v \<le> t"
    by auto
  with b show ?thesis by auto
qed

lemma no_runs_found_when_none_after_epoch:
  assumes "last_run a"
    and "\<forall>x \<in> set (glob E (runs_pattern d)). \<exists>v. getmtime E x = Inr v \<and> v \<le> 0"
  shows "resolve_run E d a
           = (Call_glob (runs_pattern d) # map Call_getmtime (glob E (runs_pattern d))
                @ [Err ''--last-run specified, but no runs found.''], Inl (Exit 1))"
proof -
  from assms(2) have "\<forall>x \<in> set (glob E (runs_pattern d)). \<exists>v. getmtime E x = Inr v"
    by blast
  from latest_total [OF this, of 0 None] obtain t sel where
    l: "latest E (glob E (runs_pattern d)) 0 None
          = (map Call_getmtime (glob E (runs_pattern d)), Inr (t, sel))"
    by (metis surj_pair)
  from latest_result [OF l] assms(2) have "sel = None"
    by fastforce
  with l assms(1) show ?thesis
    by (simp add: resolve_run_def bindc_def emit_def stop_def)
qed

subsection \<open>The choice of \<open>--flow\<close>\<close>

lemma Choice_convert_Some:
  "Choice_convert cf choices v = Some c \<Longrightarrow> c \<in> set choices \<and> cf c = cf v"
proof -
  assume "Choice_convert cf choices v = Some c"
  then have "find (\<lambda>c. cf c = cf v) (rev choices) = Some c"
    by (simp add: Choice_convert_def)
  then obtain i where "i < length (rev choices)" "cf (rev choices ! i) = cf v"
    "c = rev choices ! i"
    unfolding find_Some_iff by blast
  then have "c \<in> set (rev choices)" "cf c = cf v"
    using nth_mem by blast+
  then show ?thesis by simp
qed

lemma Choice_convert_None:
  "Choice_convert cf choices v = None \<longleftrightarrow> (\<forall>c \<in> set choices. cf c \<noteq> cf v)"
  by (auto simp: Choice_convert_def find_None_iff)

lemma cli_unknown_flow:
  "\<not> (run_tag a \<noteq> None \<and> last_run a) \<Longrightarrow> snd (load_config E a) = Inr (cfg, d) \<Longrightarrow>
   flow_description_of (flow_name a) cfg = Name s \<Longrightarrow> factory_get E s = None \<Longrightarrow>
     cli E a = (fst (load_config E a) @ [Call_get s, Err (unknown_flow s)], Inl (Exit 1))"
  by (cases "load_config E a")
     (auto simp: cli_def cli_setup_def check_exclusive_def resolve_flow_def bindc_def ret_def)







lemma ascii_lower_examples:
  "ascii_lower ''nosuch'' = ''nosuch''"
  "ascii_lower ''Classic'' = ''classic''"
  "ascii_lower ''CLASSIC'' = ''classic''"
  "ascii_lower ''OpenInKLayout'' = ''openinklayout''"
  "ascii_lower [] = []"
  by code_simp+

text \<open>The equations that run the model on the example.\<close>

lemmas run_cli =
  cli_def cli_setup_def check_exclusive_def load_config_def resolve_flow_def load_state_def
  resolve_run_def dispatch_def flow_description_of_def runs_pattern_def os_path_join_def
  basename_def bindc_def ret_def emit_def stop_def call_def
  example_env_def example_args_def example_config_def

subsection \<open>Outcomes of the flow\<close>

text \<open>
  C1. In every invocation that reaches \<open>flow.start\<close>: when the call raises \<open>FlowError\<close>,
  the process prints the failure after "The following error was encountered while running
  the flow" and exits with status 2; when it raises \<open>FlowException\<close>, the process prints
  it after "The flow has encountered an unexpected error" and exits with status 1. The
  two statuses differ.
\<close>

theorem C1_flow_failures_by_exit_code:
  "cli_setup E a = (tr, Inr sc) \<Longrightarrow>
     (\<forall>m. start E sc = Inl (FlowError m) \<longrightarrow>
        cli E a =
          (tr @ [Call_start sc,
                 Err (''The following error was encountered while running the flow: '' @ m),
                 Err ''OpenLane will now quit.''], Inl (Exit 2))
        \<and> exit_code (snd (cli E a)) = 2)
     \<and> (\<forall>m. start E sc = Inl (FlowException m) \<longrightarrow>
        cli E a =
          (tr @ [Call_start sc,
                 Err (''The flow has encountered an unexpected error: '' @ m),
                 Err ''OpenLane will now quit.''], Inl (Exit 1))
        \<and> exit_code (snd (cli E a)) = 1)"
  by (simp add: cli_after_setup dispatch_def)

theorem C1_flow_failures_by_exit_code_witness:
  "cli (example_env\<lparr>start := \<lambda>sc. Inl (FlowError ''Step failed'')\<rparr>) example_args
     = ([Call_load ''config.json'' None ''sky130A'' None [], Call_get ''Classic'',
         Call_start \<lparr>receiver = Flow_obj ''Classic'' example_config ''design'', tag = None,
                     start_frm = None, start_to = None, with_initial_state = None\<rparr>,
         Err ''The following error was encountered while running the flow: Step failed'',
         Err ''OpenLane will now quit.''], Inl (Exit 2))
   \<and> exit_code (snd (cli (example_env\<lparr>start := \<lambda>sc. Inl (FlowError ''Step failed'')\<rparr>)
                       example_args)) = 2
   \<and> cli (example_env\<lparr>start := \<lambda>sc. Inl (FlowException ''No steps'')\<rparr>) example_args
     = ([Call_load ''config.json'' None ''sky130A'' None [], Call_get ''Classic'',
         Call_start \<lparr>receiver = Flow_obj ''Classic'' example_config ''design'', tag = None,
                     start_frm = None, start_to = None, with_initial_state = None\<rparr>,
         Err ''The flow has encountered an unexpected error: No steps'',
         Err ''OpenLane will now quit.''], Inl (Exit 1))
   \<and> exit_code (snd (cli (example_env\<lparr>start := \<lambda>sc. Inl (FlowException ''No steps'')\<rparr>)
                       example_args)) = 1"
proof -
  let ?sc = "\<lparr>receiver = Flow_obj ''Classic'' example_config ''design'', tag = None,
              start_frm = None, start_to = None,
              with_initial_state = (None :: string option)\<rparr>"
  let ?tr = "[Call_load ''config.json'' None ''sky130A'' None [], Call_get ''Classic'']"
  have s: "cli_setup (example_env\<lparr>start := f\<rparr>) example_args = (?tr, Inr ?sc)" for f
    by (simp add: cli_setup_def check_exclusive_def load_config_def resolve_flow_def
          load_state_def resolve_run_def flow_description_of_def example_env_def
          example_args_def example_config_def bindc_def ret_def)
  show ?thesis
    using C1_flow_failures_by_exit_code [OF s [of "\<lambda>sc. Inl (FlowError ''Step failed'')"]]
      C1_flow_failures_by_exit_code [OF s [of "\<lambda>sc. Inl (FlowException ''No steps'')"]]
    by (simp add: example_env_def)
qed

subsection \<open>Option conflicts\<close>

text \<open>
  C2. When both a run tag and the last-run flag are set, the process exits with status 1;
  the only thing it has done by then is print the diagnostic: the configuration is not
  loaded, and no flow, state or run is resolved.
\<close>

theorem C2_exclusive_options_exit_first:
  "run_tag a \<noteq> None \<and> last_run a \<Longrightarrow>
     cli E a = ([Err ''--run-tag and --last-run are mutually exclusive.''], Inl (Exit 1))
     \<and> exit_code (snd (cli E a)) = 1"
  by (simp add: cli_def cli_setup_def check_exclusive_def bindc_def emit_def stop_def)

theorem C2_exclusive_options_exit_first_witness:
  "run_tag (example_args\<lparr>run_tag := Some ''RUN_1'', last_run := True\<rparr>) \<noteq> None
   \<and> last_run (example_args\<lparr>run_tag := Some ''RUN_1'', last_run := True\<rparr>)
   \<and> cli example_env (example_args\<lparr>run_tag := Some ''RUN_1'', last_run := True\<rparr>)
       = ([Err ''--run-tag and --last-run are mutually exclusive.''], Inl (Exit 1))"
  using C2_exclusive_options_exit_first
    [of "example_args\<lparr>run_tag := Some ''RUN_1'', last_run := True\<rparr>" example_env]
  by (simp add: example_args_def)

subsection \<open>The run tag\<close>

text \<open>
  C9. With a run tag given and the last-run flag not set, every call of \<open>flow.start\<close>
  made by the invocation carries exactly that tag; run resolution returns it without any
  effect, and neither \<open>glob.glob\<close> nor \<open>os.path.getmtime\<close> is called anywhere in the
  invocation, so the run directory is not looked at.
\<close>

theorem C9_run_tag_passed_unchanged:
  "run_tag a = Some t \<Longrightarrow> \<not> last_run a \<Longrightarrow>
     (\<forall>sc. Call_start sc \<in> set (fst (cli E a)) \<longrightarrow> tag sc = Some t)
     \<and> (\<forall>ev \<in> set (fst (cli E a)). \<not> is_run_scan ev)
     \<and> (\<forall>d. resolve_run E d a = ([], Inr (Some t)))"
proof (intro conjI allI impI ballI)
  fix sc
  assume a: "run_tag a = Some t" "\<not> last_run a" and st: "Call_start sc \<in> set (fst (cli E a))"
  from start_in_cli [OF st] cli_setup_snd_Inr [of E a sc] obtain d tg where
    "snd (resolve_run E d a) = Inr tg" "tag sc = tg"
    by fastforce
  with a show "tag sc = Some t" by (simp add: resolve_run_def ret_def)
next
  fix ev
  assume a: "\<not> last_run a" and ev: "ev \<in> set (fst (cli E a))"
  from cli_events [OF ev] a show "\<not> is_run_scan ev"
    by (auto dest!: cli_setup_events dispatch_events check_exclusive_events
          load_config_events resolve_flow_events load_state_events resolve_run_events)
next
  fix d
  assume "run_tag a = Some t" "\<not> last_run a"
  then show "resolve_run E d a = ([], Inr (Some t))" by (simp add: resolve_run_def ret_def)
qed

theorem C9_run_tag_passed_unchanged_witness:
  "run_tag (example_args\<lparr>run_tag := Some ''RUN_7''\<rparr>) = Some ''RUN_7''
   \<and> \<not> last_run (example_args\<lparr>run_tag := Some ''RUN_7''\<rparr>)
   \<and> Call_start \<lparr>receiver = Flow_obj ''Classic'' example_config ''design'',
                  tag = Some ''RUN_7'', start_frm = None, start_to = None,
                  with_initial_state = None\<rparr>
       \<in> set (fst (cli example_env (example_args\<lparr>run_tag := Some ''RUN_7''\<rparr>)))
   \<and> filter is_run_scan (fst (cli example_env (example_args\<lparr>run_tag := Some ''RUN_7''\<rparr>)))
       = []"
proof -
  let ?a = "example_args\<lparr>run_tag := Some ''RUN_7''\<rparr>"
  have h1: "run_tag ?a = Some ''RUN_7''" and h2: "\<not> last_run ?a"
    by (simp_all add: example_args_def)
  have ev: "cli example_env ?a =
    ([Call_load ''config.json'' None ''sky130A'' None [], Call_get ''Classic'',
      Call_start \<lparr>receiver = Flow_obj ''Classic'' example_config ''design'',
                  tag = Some ''RUN_7'', start_frm = None, start_to = None,
                  with_initial_state = None\<rparr>], Inr ())"
    by (simp add: run_cli)
  show ?thesis
    using C9_run_tag_passed_unchanged [OF h1 h2, of example_env] h1 h2 ev by simp
qed

text \<open>
  C10. When the last-run flag is set and \<open>flow.start\<close> is called, the tag it receives is
  the base name of the entry the scan selected: the part of that path after its last
  \<open>/\<close>, which holds no \<open>/\<close> itself and so is never a path under \<open>runs/\<close>.
\<close>

theorem C10_last_run_tag_is_basename:
  "last_run a \<Longrightarrow> Call_start sc \<in> set (fst (cli E a)) \<Longrightarrow>
     \<exists>cfg d tr t r. snd (load_config E a) = Inr (cfg, d)
        \<and> latest E (glob E (runs_pattern d)) 0 None = (tr, Inr (t, Some r))
        \<and> r \<in> set (glob E (runs_pattern d))
        \<and> tag sc = Some (basename r)
        \<and> CHR ''/'' \<notin> set (basename r)
        \<and> (\<exists>pre. r = pre @ basename r)"
proof -
  assume lr: "last_run a" and st: "Call_start sc \<in> set (fst (cli E a))"
  from start_in_cli [OF st] cli_setup_snd_Inr [of E a sc] obtain cfg d tg where
    c: "snd (load_config E a) = Inr (cfg, d)" and r: "snd (resolve_run E d a) = Inr tg"
    and t: "tag sc = tg"
    by fastforce
  from r have "resolve_run E d a = (fst (resolve_run E d a), Inr tg)"
    by (metis prod.collapse)
  from resolve_run_last [OF lr this] obtain tr' t r where
    l: "latest E (glob E (runs_pattern d)) 0 None = (tr', Inr (t, Some r))"
    and b: "tg = Some (basename r)"
    by blast
  from latest_selected_mem [OF l] have m: "r \<in> set (glob E (runs_pattern d))" by simp
  from c l m t b basename_no_slash [of r] basename_suffix [of r] show ?thesis
    by blast
qed

theorem C10_last_run_tag_is_basename_witness:
  "last_run (example_args\<lparr>last_run := True\<rparr>)
   \<and> Call_start \<lparr>receiver = Flow_obj ''Classic'' example_config ''design'',
                  tag = Some ''RUN_2'', start_frm = None, start_to = None,
                  with_initial_state = None\<rparr>
       \<in> set (fst (cli example_env (example_args\<lparr>last_run := True\<rparr>)))
   \<and> (\<exists>r. r \<in> set (glob example_env (runs_pattern ''design''))
          \<and> Some ''RUN_2'' = Some (basename r) \<and> CHR ''/'' \<notin> set (basename r))"
proof -
  let ?a = "example_args\<lparr>last_run := True\<rparr>"
  let ?sc = "\<lparr>receiver = Flow_obj ''Classic'' example_config ''design'',
              tag = Some ''RUN_2'', start_frm = None, start_to = None,
              with_initial_state = (None :: string option)\<rparr>"
  have h1: "last_run ?a" by (simp add: example_args_def)
  have ev: "cli example_env ?a =
    ([Call_load ''config.json'' None ''sky130A'' None [], Call_get ''Classic'',
      Call_glob ''design/runs/*'', Call_getmtime ''design/runs/RUN_1'',
      Call_getmtime ''design/runs/RUN_2'', Call_start ?sc], Inr ())"
    by (simp add: run_cli)
  have h2: "Call_start ?sc \<in> set (fst (cli example_env ?a))"
    by (simp add: ev)
  have d: "snd (load_config example_env ?a) = Inr (example_config, ''design'')"
    by (simp add: run_cli)
  from C10_last_run_tag_is_basename [OF h1 h2] d h1 h2 show ?thesis
    by auto
qed

subsection \<open>Flow resolution\<close>

text \<open>
  C6. When the configuration has loaded and the flow description chosen on line 136 is a
  list of step identifiers, flow resolution is the one call \<open>SequentialFlow.make\<close> on
  that list, unchanged; the class it returns is the class of the flow that is started,
  and \<open>Flow.factory.get\<close> is not called anywhere in the invocation.
\<close>

theorem C6_step_list_makes_sequential_flow:
  "snd (load_config E a) = Inr (cfg, d) \<Longrightarrow>
   flow_description_of (flow_name a) cfg = Steps ids \<Longrightarrow>
     resolve_flow E (flow_description_of (flow_name a) cfg)
       = ([Call_make ids], Inr (SequentialFlow_make E ids))
     \<and> (\<forall>ev \<in> set (fst (cli E a)). \<not> is_registry_lookup ev)
     \<and> (\<forall>sc. Call_start sc \<in> set (fst (cli E a)) \<longrightarrow>
           receiver sc = Flow_obj (SequentialFlow_make E ids) cfg d)"
proof (intro conjI allI impI ballI)
  assume "flow_description_of (flow_name a) cfg = Steps ids"
  then show "resolve_flow E (flow_description_of (flow_name a) cfg)
       = ([Call_make ids], Inr (SequentialFlow_make E ids))"
    by (simp add: resolve_flow_def)
next
  fix ev
  assume c: "snd (load_config E a) = Inr (cfg, d)"
    and s: "flow_description_of (flow_name a) cfg = Steps ids"
    and ev: "ev \<in> set (fst (cli E a))"
  from cli_events [OF ev] c s show "\<not> is_registry_lookup ev"
    by (auto dest!: cli_setup_events dispatch_events check_exclusive_events
          load_config_events resolve_flow_events load_state_events resolve_run_events)
next
  fix sc
  assume c: "snd (load_config E a) = Inr (cfg, d)"
    and s: "flow_description_of (flow_name a) cfg = Steps ids"
    and st: "Call_start sc \<in> set (fst (cli E a))"
  from start_in_cli [OF st] cli_setup_snd_Inr [of E a sc] c obtain cls where
    "snd (resolve_flow E (flow_description_of (flow_name a) cfg)) = Inr cls"
    "receiver sc = Flow_obj cls cfg d"
    by fastforce
  with s show "receiver sc = Flow_obj (SequentialFlow_make E ids) cfg d"
    by (simp add: resolve_flow_def)
qed

theorem C6_step_list_makes_sequential_flow_witness:
  "snd (load_config
          (example_env\<lparr>ConfigBuilder_load := \<lambda>f pr p s ov.
             Inr (\<lparr>meta = \<lparr>flow = Steps [''Yosys.Synthesis'', ''OpenROAD.Floorplan'']\<rparr>,
                   payload = ()\<rparr>, ''design'')\<rparr>) example_args)
     = Inr (\<lparr>meta = \<lparr>flow = Steps [''Yosys.Synthesis'', ''OpenROAD.Floorplan'']\<rparr>,
             payload = ()\<rparr>, ''design'')
   \<and> Call_start
        \<lparr>receiver = Flow_obj ''SequentialFlow''
           \<lparr>meta = \<lparr>flow = Steps [''Yosys.Synthesis'', ''OpenROAD.Floorplan'']\<rparr>,
             payload = ()\<rparr> ''design'',
         tag = None, start_frm = None, start_to = None, with_initial_state = None\<rparr>
       \<in> set (fst (cli
          (example_env\<lparr>ConfigBuilder_load := \<lambda>f pr p s ov.
             Inr (\<lparr>meta = \<lparr>flow = Steps [''Yosys.Synthesis'', ''OpenROAD.Floorplan'']\<rparr>,
                   payload = ()\<rparr>, ''design'')\<rparr>) example_args))
   \<and> filter is_registry_lookup (fst (cli
          (example_env\<lparr>ConfigBuilder_load := \<lambda>f pr p s ov.
             Inr (\<lparr>meta = \<lparr>flow = Steps [''Yosys.Synthesis'', ''OpenROAD.Floorplan'']\<rparr>,
                   payload = ()\<rparr>, ''design'')\<rparr>) example_args)) = []"
proof -
  let ?ids = "[''Yosys.Synthesis'', ''OpenROAD.Floorplan'']"
  let ?cfg = "\<lparr>meta = \<lparr>flow = Steps ?ids\<rparr>, payload = ()\<rparr>"
  let ?E = "example_env\<lparr>ConfigBuilder_load := \<lambda>f pr p s ov. Inr (?cfg, ''design'')\<rparr>"
  let ?sc = "\<lparr>receiver = Flow_obj ''SequentialFlow'' ?cfg ''design'', tag = None,
              start_frm = None, start_to = None,
              with_initial_state = (None :: string option)\<rparr>"
  have h1: "snd (load_config ?E example_args) = Inr (?cfg, ''design'')"
    by (simp add: run_cli)
  have h2: "flow_description_of (flow_name example_args) ?cfg = Steps ?ids"
    by (simp add: run_cli)
  have ev: "cli ?E example_args =
    ([Call_load ''config.json'' None ''sky130A'' None [], Call_make ?ids, Call_start ?sc],
     Inr ())"
    by (simp add: run_cli)
  show ?thesis
    using C6_step_list_makes_sequential_flow [OF h1 h2] h1 ev by simp
qed




text \<open>
  C7, as amended. A word after \<open>--flow\<close> that matches no registered name, both folded by
  \<open>str.casefold\<close>, is refused by the option parser: the process exits with status 2 after a usage error
  naming the word, and \<open>cli\<close> is not entered. Exit status 1 with the diagnostic
  "Unknown flow '...' specified in configuration's 'meta' object." naming exactly the
  name is what flow resolution does when the flow description is a name that
  \<open>Flow.factory.get\<close> does not know.
\<close>

theorem C7_unregistered_flow_name:
  "(\<forall>v. flow_name a = Some v \<and> (\<forall>c \<in> set (factory_list E). str_casefold E c \<noteq> str_casefold E v) \<longrightarrow>
        main E a = ([Invalid_choice v (factory_list E)], Inl (Exit 2))
        \<and> exit_code (snd (main E a)) = 2)
   \<and> (\<forall>cfg d s. \<not> (run_tag a \<noteq> None \<and> last_run a)
         \<and> snd (load_config E a) = Inr (cfg, d)
         \<and> flow_description_of (flow_name a) cfg = Name s \<and> factory_get E s = None \<longrightarrow>
        cli E a = (fst (load_config E a) @ [Call_get s, Err (unknown_flow s)], Inl (Exit 1))
        \<and> exit_code (snd (cli E a)) = 1)"
proof (intro conjI allI impI)
  fix v
  assume h: "flow_name a = Some v \<and> (\<forall>c \<in> set (factory_list E). str_casefold E c \<noteq> str_casefold E v)"
  then have "Choice_convert (str_casefold E) (factory_list E) v = None"
    by (simp add: Choice_convert_None)
  with h show "main E a = ([Invalid_choice v (factory_list E)], Inl (Exit 2))"
    by (simp add: main_def)
  then show "exit_code (snd (main E a)) = 2" by simp
next
  fix cfg d s
  assume "\<not> (run_tag a \<noteq> None \<and> last_run a)
         \<and> snd (load_config E a) = Inr (cfg, d)
         \<and> flow_description_of (flow_name a) cfg = Name s \<and> factory_get E s = None"
  then show "cli E a = (fst (load_config E a) @ [Call_get s, Err (unknown_flow s)], Inl (Exit 1))"
    using cli_unknown_flow [of a E cfg d s] by simp
  then show "exit_code (snd (cli E a)) = 1" by simp
qed

theorem C7_unregistered_flow_name_witness:
  "flow_name (example_args\<lparr>flow_name := Some ''nosuch''\<rparr>) = Some ''nosuch''
   \<and> str_casefold example_env ''nosuch''
       \<notin> set (map (str_casefold example_env) (factory_list example_env))
   \<and> exit_code (snd (main example_env (example_args\<lparr>flow_name := Some ''nosuch''\<rparr>))) = 2
   \<and> factory_get example_env ''Bogus'' = None
   \<and> cli (example_env\<lparr>ConfigBuilder_load := \<lambda>f pr p s ov.
             Inr (\<lparr>meta = \<lparr>flow = Name ''Bogus''\<rparr>, payload = ()\<rparr>, ''design'')\<rparr>)
        example_args
       = ([Call_load ''config.json'' None ''sky130A'' None [], Call_get ''Bogus'',
           Err (unknown_flow ''Bogus'')], Inl (Exit 1))"
proof -
  let ?a = "example_args\<lparr>flow_name := Some ''nosuch''\<rparr>"
  let ?cfg = "\<lparr>meta = \<lparr>flow = Name ''Bogus''\<rparr>, payload = ()\<rparr>"
  let ?E = "example_env\<lparr>ConfigBuilder_load := \<lambda>f pr p s ov. Inr (?cfg, ''design'')\<rparr>"
  have f: "flow_name ?a = Some ''nosuch''"
    by (simp add: example_args_def)
  have m: "\<forall>c \<in> set (factory_list example_env).
             str_casefold example_env c \<noteq> str_casefold example_env ''nosuch''"
    by (simp add: ascii_lower_examples example_env_def)
  have x: "\<not> (run_tag example_args \<noteq> None \<and> last_run example_args)"
    by (simp add: example_args_def)
  have l: "load_config ?E example_args
             = ([Call_load ''config.json'' None ''sky130A'' None []], Inr (?cfg, ''design''))"
    by (simp add: load_config_def example_env_def example_args_def)
  have d: "flow_description_of (flow_name example_args) ?cfg = Name ''Bogus''"
    by (simp add: flow_description_of_def example_args_def)
  have g: "factory_get ?E ''Bogus'' = None" "factory_get example_env ''Bogus'' = None"
    by (simp_all add: example_env_def)
  have s: "snd (load_config ?E example_args) = Inr (?cfg, ''design'')"
    by (simp add: l)
  from C7_unregistered_flow_name [of ?a example_env] f m have
    1: "exit_code (snd (main example_env ?a)) = 2"
    by blast
  from C7_unregistered_flow_name [of example_args ?E] x s d g(1) have
    "cli ?E example_args
       = (fst (load_config ?E example_args) @ [Call_get ''Bogus'', Err (unknown_flow ''Bogus'')],
          Inl (Exit 1))"
    by blast
  then have 2: "cli ?E example_args
       = ([Call_load ''config.json'' None ''sky130A'' None [], Call_get ''Bogus'',
           Err (unknown_flow ''Bogus'')], Inl (Exit 1))"
    by (simp add: l)
  have k: "str_casefold example_env ''nosuch''
             \<notin> set (map (str_casefold example_env) (factory_list example_env))"
    by (simp add: ascii_lower_examples example_env_def)
  from f k 1 g(2) 2 show ?thesis by simp
qed

text \<open>
  C7 as stated (exit status 1 and the unknown-flow diagnostic for \<open>--flow nosuch\<close>) fails:
  with the flows \<open>Classic\<close> and \<open>OpenInKLayout\<close> registered, the process stops in the
  parser with exit status 2, and the trace holds no \<open>Err\<close> line.
\<close>

theorem C7_unregistered_flow_name_exits_2:
  "Choice_convert (str_casefold example_env) (factory_list example_env) ''nosuch'' = None
   \<and> main example_env (example_args\<lparr>flow_name := Some ''nosuch''\<rparr>)
       = ([Invalid_choice ''nosuch'' [''Classic'', ''OpenInKLayout'']], Inl (Exit 2))
   \<and> exit_code (snd (main example_env (example_args\<lparr>flow_name := Some ''nosuch''\<rparr>))) \<noteq> 1"
  by (simp add: main_def Choice_convert_def ascii_lower_examples example_env_def
        example_args_def)

subsection \<open>The initial state\<close>

text \<open>
  C8. Without \<open>--with-initial-state\<close>, no file is opened and nothing is deserialised in
  the whole invocation, and \<open>flow.start\<close> receives \<open>with_initial_state=None\<close>. With a
  path, a call of \<open>flow.start\<close> receives the state that \<open>State.loads\<close> made of the whole
  text read from that path. When reading the file or \<open>State.loads\<close> raises, the exit
  status of the process is 1; and once the file is opened, the process ends on that very
  exception, which has no handler.
\<close>

theorem C8_initial_state_only_when_given:
  "(initial_state_json a = None \<longrightarrow>
      (\<forall>ev \<in> set (fst (cli E a)). \<not> is_state_read ev)
      \<and> (\<forall>sc. Call_start sc \<in> set (fst (cli E a)) \<longrightarrow> with_initial_state sc = None))
   \<and> (\<forall>p. initial_state_json a = Some p \<longrightarrow>
        (\<forall>sc. Call_start sc \<in> set (fst (cli E a)) \<longrightarrow>
           (\<exists>text st. open_read E p = Inr text \<and> State_loads E text = Inr st
              \<and> Call_open p \<in> set (fst (cli E a)) \<and> Call_loads text \<in> set (fst (cli E a))
              \<and> with_initial_state sc = Some st))
        \<and> (\<forall>e. open_read E p = Inl e
                  \<or> (\<exists>text. open_read E p = Inr text \<and> State_loads E text = Inl e) \<longrightarrow>
              exit_code (snd (cli E a)) = 1)
        \<and> (\<forall>e. Call_open p \<in> set (fst (cli E a))
              \<and> (open_read E p = Inl e
                  \<or> (\<exists>text. open_read E p = Inr text \<and> State_loads E text = Inl e)) \<longrightarrow>
              snd (cli E a) = Inl (Uncaught e)))"
proof (intro conjI allI impI ballI)
  fix ev
  assume n: "initial_state_json a = None" and ev: "ev \<in> set (fst (cli E a))"
  from cli_events [OF ev] n show "\<not> is_state_read ev"
    by (auto dest!: cli_setup_events dispatch_events check_exclusive_events
          load_config_events resolve_flow_events load_state_events resolve_run_events)
next
  fix sc
  assume n: "initial_state_json a = None" and st: "Call_start sc \<in> set (fst (cli E a))"
  from start_in_cli [OF st] cli_setup_snd_Inr [of E a sc] obtain s where
    "snd (load_state E (initial_state_json a)) = Inr s" "with_initial_state sc = s"
    by fastforce
  with n show "with_initial_state sc = None" by (simp add: load_state_def ret_def)
next
  fix p sc
  assume n: "initial_state_json a = Some p" and st: "Call_start sc \<in> set (fst (cli E a))"
  from start_in_cli [OF st] have su: "snd (cli_setup E a) = Inr sc" .
  from cli_setup_snd_Inr [OF su] obtain s where
    s: "snd (load_state E (initial_state_json a)) = Inr s" "with_initial_state sc = s"
    by fastforce
  from load_state_Some_Inr [of E p s] s(1) n obtain content st' where
    l: "open_read E p = Inr content" "State_loads E content = Inr st'" "s = Some st'"
       "fst (load_state E (Some p)) = [Call_open p, Call_loads content]"
    by auto
  from load_state_trace_in_cli [OF su] n l(4) have
    "Call_open p \<in> set (fst (cli E a))" "Call_loads content \<in> set (fst (cli E a))"
    by auto
  with l s(2) show "\<exists>text st. open_read E p = Inr text \<and> State_loads E text = Inr st
              \<and> Call_open p \<in> set (fst (cli E a)) \<and> Call_loads text \<in> set (fst (cli E a))
              \<and> with_initial_state sc = Some st"
    by blast
next
  fix p e
  assume "initial_state_json a = Some p"
    and "open_read E p = Inl e
           \<or> (\<exists>text. open_read E p = Inr text \<and> State_loads E text = Inl e)"
  then show "exit_code (snd (cli E a)) = 1"
    by (rule state_failure_exit_1)
next
  fix p e
  assume n: "initial_state_json a = Some p"
    and f: "Call_open p \<in> set (fst (cli E a))
              \<and> (open_read E p = Inl e
                  \<or> (\<exists>text. open_read E p = Inr text \<and> State_loads E text = Inl e))"
  from f open_event_stage [of p E a] obtain cfg d cls where
    g: "\<not> (run_tag a \<noteq> None \<and> last_run a)" "snd (load_config E a) = Inr (cfg, d)"
       "snd (resolve_flow E (flow_description_of (flow_name a) cfg)) = Inr cls"
    by blast
  from f load_state_Some_Inl [of E p e] n have
    "snd (load_state E (initial_state_json a)) = Inl (Uncaught e)" by simp
  from cli_stops_in_setup [OF setup_stops_in_load_state [OF g this]]
  show "snd (cli E a) = Inl (Uncaught e)" .
qed

theorem C8_initial_state_only_when_given_witness:
  "initial_state_json example_args = None
   \<and> Call_start \<lparr>receiver = Flow_obj ''Classic'' example_config ''design'', tag = None,
                  start_frm = None, start_to = None, with_initial_state = None\<rparr>
       \<in> set (fst (cli example_env example_args))
   \<and> filter is_state_read (fst (cli example_env example_args)) = []
   \<and> Call_start \<lparr>receiver = Flow_obj ''Classic'' example_config ''design'', tag = None,
                  start_frm = None, start_to = None,
                  with_initial_state = Some ''empty state''\<rparr>
       \<in> set (fst (cli example_env
                      (example_args\<lparr>initial_state_json := Some ''state_in.json''\<rparr>)))
   \<and> State_loads example_env ''{}'' = Inr ''empty state''
   \<and> Call_open ''missing.json''
       \<in> set (fst (cli example_env
                      (example_args\<lparr>initial_state_json := Some ''missing.json''\<rparr>)))
   \<and> open_read example_env ''missing.json'' = Inl (OSError ''missing.json'')
   \<and> exit_code (snd (cli example_env
                        (example_args\<lparr>initial_state_json := Some ''missing.json''\<rparr>))) = 1"
proof -
  let ?a1 = "example_args\<lparr>initial_state_json := Some ''state_in.json''\<rparr>"
  let ?a2 = "example_args\<lparr>initial_state_json := Some ''missing.json''\<rparr>"
  have n: "initial_state_json example_args = None"
    and s1: "initial_state_json ?a1 = Some ''state_in.json''"
    and s2: "initial_state_json ?a2 = Some ''missing.json''"
    by (simp_all add: example_args_def)
  have e0: "cli example_env example_args =
    ([Call_load ''config.json'' None ''sky130A'' None [], Call_get ''Classic'',
      Call_start \<lparr>receiver = Flow_obj ''Classic'' example_config ''design'', tag = None,
                  start_frm = None, start_to = None, with_initial_state = None\<rparr>], Inr ())"
    by (simp add: run_cli)
  have e1: "cli example_env ?a1 =
    ([Call_load ''config.json'' None ''sky130A'' None [], Call_get ''Classic'',
      Call_open ''state_in.json'', Call_loads ''{}'',
      Call_start \<lparr>receiver = Flow_obj ''Classic'' example_config ''design'', tag = None,
                  start_frm = None, start_to = None,
                  with_initial_state = Some ''empty state''\<rparr>], Inr ())"
    by (simp add: run_cli)
  have e2: "fst (cli example_env ?a2) =
    [Call_load ''config.json'' None ''sky130A'' None [], Call_get ''Classic'',
     Call_open ''missing.json'']"
    by (simp add: run_cli)
  have o: "open_read example_env ''missing.json'' = Inl (OSError ''missing.json'')"
    and l: "State_loads example_env ''{}'' = Inr ''empty state''"
    by (simp_all add: example_env_def)
  show ?thesis
    using C8_initial_state_only_when_given [of example_args example_env]
      C8_initial_state_only_when_given [of ?a1 example_env]
      C8_initial_state_only_when_given [of ?a2 example_env]
      n s1 s2 e0 e1 e2 o l
    by simp
qed

subsection \<open>The latest run\<close>

text \<open>
  C3. The claim is that with \<open>--last-run\<close> the entry with the greatest last-modified time
  is selected, whatever the order of enumeration. The loop starts from \<open>latest_time = 0\<close>
  and keeps an entry only when its time is greater: with \<open>RUN_1\<close> modified one second
  before the epoch and \<open>RUN_2\<close> at the epoch, \<open>RUN_2\<close> has the greatest time, and in
  either order the scan ends with no entry selected and run resolution exits with
  status 1.
\<close>

theorem C3_latest_run_at_epoch_not_selected:
  "latest (example_env\<lparr>getmtime := \<lambda>p. if p = ''design/runs/RUN_1'' then Inr (- 1)
                                     else if p = ''design/runs/RUN_2'' then Inr 0
                                     else Inl (OSError p)\<rparr>)
     [''design/runs/RUN_1'', ''design/runs/RUN_2''] 0 None
     = ([Call_getmtime ''design/runs/RUN_1'', Call_getmtime ''design/runs/RUN_2''],
        Inr (0, None))
   \<and> latest (example_env\<lparr>getmtime := \<lambda>p. if p = ''design/runs/RUN_1'' then Inr (- 1)
                                     else if p = ''design/runs/RUN_2'' then Inr 0
                                     else Inl (OSError p)\<rparr>)
     [''design/runs/RUN_2'', ''design/runs/RUN_1''] 0 None
     = ([Call_getmtime ''design/runs/RUN_2'', Call_getmtime ''design/runs/RUN_1''],
        Inr (0, None))
   \<and> resolve_run (example_env\<lparr>getmtime := \<lambda>p. if p = ''design/runs/RUN_1'' then Inr (- 1)
                                     else if p = ''design/runs/RUN_2'' then Inr 0
                                     else Inl (OSError p)\<rparr>)
       ''design'' (example_args\<lparr>last_run := True\<rparr>)
     = ([Call_glob ''design/runs/*'', Call_getmtime ''design/runs/RUN_1'',
         Call_getmtime ''design/runs/RUN_2'',
         Err ''--last-run specified, but no runs found.''], Inl (Exit 1))"
  by (simp add: run_cli)

text \<open>
  C4. The claim is that with \<open>--last-run\<close> the process exits with status 1 and the
  no-runs-found diagnostic exactly when no run directory exists. Here \<open>runs/\<close> holds the
  run \<open>RUN_1\<close>, last modified at the epoch (\<open>getmtime\<close> gives \<open>0\<close>): the process still
  prints "--last-run specified, but no runs found." and exits with status 1.
\<close>

theorem C4_no_runs_found_with_a_run_present:
  "glob (example_env\<lparr>glob := \<lambda>pat. if pat = ''design/runs/*'' then [''design/runs/RUN_1'']
                                    else [],
                      getmtime := \<lambda>p. Inr 0\<rparr>) (runs_pattern ''design'')
     = [''design/runs/RUN_1'']
   \<and> cli (example_env\<lparr>glob := \<lambda>pat. if pat = ''design/runs/*'' then [''design/runs/RUN_1'']
                                    else [],
                      getmtime := \<lambda>p. Inr 0\<rparr>) (example_args\<lparr>last_run := True\<rparr>)
     = ([Call_load ''config.json'' None ''sky130A'' None [], Call_get ''Classic'',
         Call_glob ''design/runs/*'', Call_getmtime ''design/runs/RUN_1'',
         Err ''--last-run specified, but no runs found.''], Inl (Exit 1))"
  by (simp add: run_cli)

end
